theory Spec2Isabelle
  imports Main "HOL-Library.Word"
begin

section \<open>The schema of the migration\<close>

text \<open>
  The migration declares three enumerations, the tables \<open>user_roles\<close> and \<open>reports\<close>,
  the function \<open>has_role\<close>, six row-level security policies on the two tables and two
  triggers. A column of an SQL tuple can hold NULL whatever its declaration says: NOT NULL
  is a constraint checked when the tuple is written. So every column is an \<open>option\<close>
  (\<open>None\<close> is NULL), for the tuples stored in a table as for the tuples a request
  proposes, and the constraints are checks of the operations.
\<close>

type_synonym uuid = "128 word"
type_synonym timestamptz = int
type_synonym js_string = "16 word list"
type_synonym sql_text = js_string

datatype app_role = USER | MODERATOR

datatype report_category = power_outage | water_cut | road_damage | other

datatype report_status = pending | verified | rejected

text \<open>The table \<open>user_roles\<close>; its columns \<open>id\<close>, \<open>user_id\<close> and \<open>created_at\<close> carry
  the prefix \<open>role_\<close> here, since \<open>reports\<close> has columns of the same names.\<close>

record user_roles_row =
  role_id :: "uuid option"
  role_user_id :: "uuid option"
  role :: "app_role option"
  role_created_at :: "timestamptz option"

text \<open>The table \<open>reports\<close>; its column \<open>id\<close> is \<open>report_id\<close> here.\<close>

record reports_row =
  report_id :: "uuid option"
  title :: "sql_text option"
  category :: "report_category option"
  description :: "sql_text option"
  image_url :: "sql_text option"
  location :: "sql_text option"
  status :: "report_status option"
  user_id :: "uuid option"
  verified_by :: "uuid option"
  verified_at :: "timestamptz option"
  created_at :: "timestamptz option"
  updated_at :: "timestamptz option"

text \<open>The database: the identities of \<open>auth.users\<close> (a table of the hosting service,
  of which the migration uses the primary key \<open>id\<close> only) and the two tables, each a
  list of tuples in insertion order.\<close>

record db =
  auth_users :: "uuid list"
  user_roles :: "user_roles_row list"
  reports :: "reports_row list"

datatype error =
  Rls_violation
  | Not_null_violation
  | Unique_violation
  | Foreign_key_violation

text \<open>The comparison \<open>a = b\<close> of SQL is true only when both sides are not NULL and
  equal; a policy admits a tuple only when its expression is true. The policies combine
  comparisons with AND and OR only, so the expression is true exactly when the
  combination of the truth of its comparisons is.\<close>

definition sql_eq :: "'a option \<Rightarrow> 'a option \<Rightarrow> bool" where
  "sql_eq a b = (a \<noteq> None \<and> a = b)"

text \<open>\<open>has_role\<close>: does a tuple of \<open>user_roles\<close> have this user and this role.\<close>

definition has_role :: "db \<Rightarrow> uuid option \<Rightarrow> app_role option \<Rightarrow> bool" where
  "has_role d arg_user_id arg_role =
     list_ex (\<lambda>r. sql_eq (role_user_id r) arg_user_id \<and> sql_eq (role r) arg_role) (user_roles d)"

subsection \<open>Row-level security policies\<close>

text \<open>Each policy is its expression, over the caller's identity \<open>auth.uid()\<close> (NULL
  for a caller who is not signed in) and the columns of one tuple.\<close>

definition users_can_view_their_own_roles :: "uuid option \<Rightarrow> user_roles_row \<Rightarrow> bool" where
  "users_can_view_their_own_roles uid r = sql_eq uid (role_user_id r)"

definition users_can_insert_their_own_role_on_signup ::
    "uuid option \<Rightarrow> user_roles_row \<Rightarrow> bool" where
  "users_can_insert_their_own_role_on_signup uid r =
     (sql_eq uid (role_user_id r) \<and> sql_eq (role r) (Some USER))"

definition anyone_can_view_verified_reports :: "db \<Rightarrow> uuid option \<Rightarrow> reports_row \<Rightarrow> bool" where
  "anyone_can_view_verified_reports d uid r =
     (sql_eq (status r) (Some verified) \<or> sql_eq uid (user_id r)
      \<or> has_role d uid (Some MODERATOR))"

definition users_can_create_reports :: "uuid option \<Rightarrow> reports_row \<Rightarrow> bool" where
  "users_can_create_reports uid r = sql_eq uid (user_id r)"

definition users_can_update_their_own_pending_reports ::
    "uuid option \<Rightarrow> reports_row \<Rightarrow> bool" where
  "users_can_update_their_own_pending_reports uid r =
     (sql_eq uid (user_id r) \<and> sql_eq (status r) (Some pending))"

definition moderators_can_update_any_report :: "db \<Rightarrow> uuid option \<Rightarrow> reports_row \<Rightarrow> bool" where
  "moderators_can_update_any_report d uid r = has_role d uid (Some MODERATOR)"

text \<open>
  Row-level security is enabled on both tables, and every policy is permissive and for
  every role. What a command may do is the disjunction of the policies declared for it:
  \<^item> SELECT returns the tuples its USING expressions admit, and leaves out the others;
  \<^item> INSERT raises an error when the proposed tuple fails the WITH CHECK expressions;
  \<^item> UPDATE works on the tuples its USING expressions admit (the others are left as
    they are, without an error) and raises an error when a tuple it produces fails the
    WITH CHECK expressions; the two UPDATE policies of \<open>reports\<close> declare USING only,
    and then the USING expression is the WITH CHECK expression too;
  \<^item> a command with no policy (UPDATE and DELETE on \<open>user_roles\<close>, DELETE on
    \<open>reports\<close>) is admitted on no tuple.
\<close>

definition reports_select_using :: "db \<Rightarrow> uuid option \<Rightarrow> reports_row \<Rightarrow> bool" where
  "reports_select_using d uid r = anyone_can_view_verified_reports d uid r"

definition reports_insert_check :: "db \<Rightarrow> uuid option \<Rightarrow> reports_row \<Rightarrow> bool" where
  "reports_insert_check d uid r = users_can_create_reports uid r"

definition reports_update_using :: "db \<Rightarrow> uuid option \<Rightarrow> reports_row \<Rightarrow> bool" where
  "reports_update_using d uid r =
     (users_can_update_their_own_pending_reports uid r
      \<or> moderators_can_update_any_report d uid r)"

definition reports_update_check :: "db \<Rightarrow> uuid option \<Rightarrow> reports_row \<Rightarrow> bool" where
  "reports_update_check d uid r = reports_update_using d uid r"

definition user_roles_select_using :: "db \<Rightarrow> uuid option \<Rightarrow> user_roles_row \<Rightarrow> bool" where
  "user_roles_select_using d uid r = users_can_view_their_own_roles uid r"

definition user_roles_insert_check :: "db \<Rightarrow> uuid option \<Rightarrow> user_roles_row \<Rightarrow> bool" where
  "user_roles_insert_check d uid r = users_can_insert_their_own_role_on_signup uid r"

definition user_roles_update_using :: "db \<Rightarrow> uuid option \<Rightarrow> user_roles_row \<Rightarrow> bool" where
  "user_roles_update_using d uid r = False"

definition user_roles_delete_using :: "db \<Rightarrow> uuid option \<Rightarrow> user_roles_row \<Rightarrow> bool" where
  "user_roles_delete_using d uid r = False"

subsection \<open>Constraints\<close>

text \<open>The NOT NULL columns of each table, and its foreign keys into \<open>auth.users\<close>
  (a foreign key that is NULL refers to nothing and holds).\<close>

definition reports_not_null :: "reports_row \<Rightarrow> bool" where
  "reports_not_null r =
     (report_id r \<noteq> None \<and> title r \<noteq> None \<and> category r \<noteq> None \<and> description r \<noteq> None
      \<and> status r \<noteq> None \<and> user_id r \<noteq> None \<and> created_at r \<noteq> None \<and> updated_at r \<noteq> None)"

definition references_auth_users :: "db \<Rightarrow> uuid option \<Rightarrow> bool" where
  "references_auth_users d k = (case k of None \<Rightarrow> True | Some u \<Rightarrow> u \<in> set (auth_users d))"

definition reports_fk :: "db \<Rightarrow> reports_row \<Rightarrow> bool" where
  "reports_fk d r = (references_auth_users d (user_id r) \<and> references_auth_users d (verified_by r))"

definition user_roles_not_null :: "user_roles_row \<Rightarrow> bool" where
  "user_roles_not_null r =
     (role_id r \<noteq> None \<and> role_user_id r \<noteq> None \<and> role r \<noteq> None \<and> role_created_at r \<noteq> None)"

definition user_roles_fk :: "db \<Rightarrow> user_roles_row \<Rightarrow> bool" where
  "user_roles_fk d r = references_auth_users d (role_user_id r)"

text \<open>The constraints as a property of a database: what every stored state satisfies.\<close>

definition db_ok :: "db \<Rightarrow> bool" where
  "db_ok d =
     (distinct (auth_users d)
      \<and> distinct (map role_id (user_roles d))
      \<and> distinct (map (\<lambda>r. (role_user_id r, role r)) (user_roles d))
      \<and> list_all (\<lambda>r. user_roles_not_null r \<and> user_roles_fk d r) (user_roles d)
      \<and> distinct (map report_id (reports d))
      \<and> list_all (\<lambda>r. reports_not_null r \<and> reports_fk d r) (reports d))"

subsection \<open>Requests\<close>

text \<open>A request names some columns and gives each a value or NULL; a column it does
  not name is \<open>Omitted\<close>. An INSERT gives an omitted column its DEFAULT (NULL when the
  column declares none); an UPDATE leaves it as it is.\<close>

datatype 'a col = Omitted | Supplied "'a option"

definition col_or :: "'a col \<Rightarrow> 'a option \<Rightarrow> 'a option" where
  "col_or c v = (case c of Omitted \<Rightarrow> v | Supplied w \<Rightarrow> w)"

record reports_payload =
  p_id :: "uuid col"
  p_title :: "sql_text col"
  p_category :: "report_category col"
  p_description :: "sql_text col"
  p_image_url :: "sql_text col"
  p_location :: "sql_text col"
  p_status :: "report_status col"
  p_user_id :: "uuid col"
  p_verified_by :: "uuid col"
  p_verified_at :: "timestamptz col"
  p_created_at :: "timestamptz col"
  p_updated_at :: "timestamptz col"

record user_roles_payload =
  q_id :: "uuid col"
  q_user_id :: "uuid col"
  q_role :: "app_role col"
  q_created_at :: "timestamptz col"

definition no_columns :: reports_payload where
  "no_columns =
     \<lparr>p_id = Omitted, p_title = Omitted, p_category = Omitted, p_description = Omitted,
      p_image_url = Omitted, p_location = Omitted, p_status = Omitted, p_user_id = Omitted,
      p_verified_by = Omitted, p_verified_at = Omitted, p_created_at = Omitted,
      p_updated_at = Omitted\<rparr>"

text \<open>An aborted request changes nothing: the state after a request is the new state
  when it succeeded and the old one when it raised an error.\<close>

definition commit :: "db \<Rightarrow> error + db \<Rightarrow> db" where
  "commit d res = (case res of Inl e \<Rightarrow> d | Inr d' \<Rightarrow> d')"

subsection \<open>SELECT on reports\<close>

definition select_reports :: "db \<Rightarrow> uuid option \<Rightarrow> reports_row list" where
  "select_reports d uid = filter (reports_select_using d uid) (reports d)"

subsection \<open>INSERT on reports\<close>

text \<open>The tuple an INSERT proposes: \<open>gen\<close> is the value of \<open>gen_random_uuid()\<close> and
  \<open>now\<close> the value of \<open>now()\<close> in this request.\<close>

definition reports_new :: "uuid \<Rightarrow> timestamptz \<Rightarrow> reports_payload \<Rightarrow> reports_row" where
  "reports_new gen now p =
     \<lparr>report_id = col_or (p_id p) (Some gen),
      title = col_or (p_title p) None,
      category = col_or (p_category p) None,
      description = col_or (p_description p) None,
      image_url = col_or (p_image_url p) None,
      location = col_or (p_location p) None,
      status = col_or (p_status p) (Some pending),
      user_id = col_or (p_user_id p) None,
      verified_by = col_or (p_verified_by p) None,
      verified_at = col_or (p_verified_at p) None,
      created_at = col_or (p_created_at p) (Some now),
      updated_at = col_or (p_updated_at p) (Some now)\<rparr>"

definition insert_report ::
    "db \<Rightarrow> uuid option \<Rightarrow> uuid \<Rightarrow> timestamptz \<Rightarrow> reports_payload \<Rightarrow> error + db" where
  "insert_report d uid gen now p =
     (let new = reports_new gen now p in
      if \<not> reports_insert_check d uid new then Inl Rls_violation
      else if \<not> reports_not_null new then Inl Not_null_violation
      else if report_id new \<in> set (map report_id (reports d)) then Inl Unique_violation
      else if \<not> reports_fk d new then Inl Foreign_key_violation
      else Inr (d\<lparr>reports := reports d @ [new]\<rparr>))"

subsection \<open>UPDATE on reports\<close>

text \<open>The trigger function \<open>update_updated_at_column\<close>, run before each row of an
  UPDATE on \<open>reports\<close> is written.\<close>

definition update_updated_at_column :: "timestamptz \<Rightarrow> reports_row \<Rightarrow> reports_row" where
  "update_updated_at_column now new = new\<lparr>updated_at := Some now\<rparr>"

text \<open>The SET clause of an UPDATE: the named columns get their values.\<close>

definition reports_set :: "reports_payload \<Rightarrow> reports_row \<Rightarrow> reports_row" where
  "reports_set p r =
     \<lparr>report_id = col_or (p_id p) (report_id r),
      title = col_or (p_title p) (title r),
      category = col_or (p_category p) (category r),
      description = col_or (p_description p) (description r),
      image_url = col_or (p_image_url p) (image_url r),
      location = col_or (p_location p) (location r),
      status = col_or (p_status p) (status r),
      user_id = col_or (p_user_id p) (user_id r),
      verified_by = col_or (p_verified_by p) (verified_by r),
      verified_at = col_or (p_verified_at p) (verified_at r),
      created_at = col_or (p_created_at p) (created_at r),
      updated_at = col_or (p_updated_at p) (updated_at r)\<rparr>"

text \<open>One row of an UPDATE: the SET clause, the trigger, the checks of row-level
  security on the tuple produced, then the constraints of the tuple. The tuple produced
  must pass the WITH CHECK expressions of the UPDATE policies and, since the statement
  reads the table in its WHERE clause, the USING expression of the SELECT policy.\<close>

definition update_row ::
    "db \<Rightarrow> uuid option \<Rightarrow> timestamptz \<Rightarrow> reports_payload \<Rightarrow> reports_row \<Rightarrow> error + reports_row" where
  "update_row d uid now p r =
     (let new = update_updated_at_column now (reports_set p r) in
      if \<not> (reports_update_check d uid new \<and> reports_select_using d uid new)
      then Inl Rls_violation
      else if \<not> reports_not_null new then Inl Not_null_violation
      else if \<not> reports_fk d new then Inl Foreign_key_violation
      else Inr new)"

text \<open>The rows of a table that a predicate selects are rewritten, the others kept; the
  first error aborts the statement. The count is the number of rows rewritten.\<close>

fun update_rows ::
    "('r \<Rightarrow> bool) \<Rightarrow> ('r \<Rightarrow> error + 'r) \<Rightarrow> 'r list \<Rightarrow> error + (nat \<times> 'r list)" where
  "update_rows sel f [] = Inr (0, [])"
| "update_rows sel f (r # rs) =
     (if sel r then
        (case f r of
           Inl e \<Rightarrow> Inl e
         | Inr r' \<Rightarrow>
             (case update_rows sel f rs of
                Inl e \<Rightarrow> Inl e
              | Inr (n, rs') \<Rightarrow> Inr (Suc n, r' # rs')))
      else
        (case update_rows sel f rs of
           Inl e \<Rightarrow> Inl e
         | Inr (n, rs') \<Rightarrow> Inr (n, r # rs')))"

text \<open>\<open>update(p).eq("id", rid)\<close>, the one shape of UPDATE the client code issues. The
  WHERE clause reads the column \<open>id\<close>, so the row must pass the SELECT policy as well as
  the UPDATE policies. The primary key is checked on the table that results.\<close>

definition update_report ::
    "db \<Rightarrow> uuid option \<Rightarrow> timestamptz \<Rightarrow> uuid option \<Rightarrow> reports_payload \<Rightarrow> error + (nat \<times> db)" where
  "update_report d uid now rid p =
     (case update_rows
             (\<lambda>r. sql_eq (report_id r) rid \<and> reports_select_using d uid r
                  \<and> reports_update_using d uid r)
             (update_row d uid now p) (reports d) of
        Inl e \<Rightarrow> Inl e
      | Inr (n, rs) \<Rightarrow>
          if distinct (map report_id rs) then Inr (n, d\<lparr>reports := rs\<rparr>)
          else Inl Unique_violation)"

subsection \<open>The moderation view\<close>

text \<open>\<open>updateStatus\<close> of the moderation page sends \<open>update({ status }).eq("id",
  reportId)\<close>: a request that names the column \<open>status\<close> and no other. It then shows
  the toast "Update failed" with the error's message when the request returned an error,
  and the toast "Report updated" otherwise.\<close>

definition status_payload :: "report_status \<Rightarrow> reports_payload" where
  "status_payload s = no_columns\<lparr>p_status := Supplied (Some s)\<rparr>"

datatype toast = Update_failed error | Report_updated report_status

definition updateStatus ::
    "db \<Rightarrow> uuid option \<Rightarrow> timestamptz \<Rightarrow> uuid \<Rightarrow> report_status \<Rightarrow> toast \<times> db" where
  "updateStatus d uid now reportId s =
     (case update_report d uid now (Some reportId) (status_payload s) of
        Inl e \<Rightarrow> (Update_failed e, d)
      | Inr (n, d') \<Rightarrow> (Report_updated s, d'))"

subsection \<open>INSERT on user_roles\<close>

definition user_roles_new ::
    "uuid \<Rightarrow> timestamptz \<Rightarrow> user_roles_payload \<Rightarrow> user_roles_row" where
  "user_roles_new gen now q =
     \<lparr>role_id = col_or (q_id q) (Some gen),
      role_user_id = col_or (q_user_id q) None,
      role = col_or (q_role q) (Some USER),
      role_created_at = col_or (q_created_at q) (Some now)\<rparr>"

text \<open>Writing a tuple to \<open>user_roles\<close>: the NOT NULL columns, the primary key, the
  constraint UNIQUE(user_id, role), then the foreign key.\<close>

definition store_user_role :: "db \<Rightarrow> user_roles_row \<Rightarrow> error + db" where
  "store_user_role d new =
     (if \<not> user_roles_not_null new then Inl Not_null_violation
      else if role_id new \<in> set (map role_id (user_roles d)) then Inl Unique_violation
      else if (role_user_id new, role new) \<in> set (map (\<lambda>r. (role_user_id r, role r)) (user_roles d))
        then Inl Unique_violation
      else if \<not> user_roles_fk d new then Inl Foreign_key_violation
      else Inr (d\<lparr>user_roles := user_roles d @ [new]\<rparr>))"

text \<open>An INSERT by the owner of the table, whom row-level security does not bind: the
  trigger function \<open>handle_new_user\<close> is SECURITY DEFINER and inserts as its owner.\<close>

definition insert_user_role_as_owner ::
    "db \<Rightarrow> uuid \<Rightarrow> timestamptz \<Rightarrow> user_roles_payload \<Rightarrow> error + db" where
  "insert_user_role_as_owner d gen now q = store_user_role d (user_roles_new gen now q)"

text \<open>An INSERT by a client, under the policy "Users can insert their own role on
  signup".\<close>

definition insert_user_role ::
    "db \<Rightarrow> uuid option \<Rightarrow> uuid \<Rightarrow> timestamptz \<Rightarrow> user_roles_payload \<Rightarrow> error + db" where
  "insert_user_role d uid gen now q =
     (let new = user_roles_new gen now q in
      if \<not> user_roles_insert_check d uid new then Inl Rls_violation
      else store_user_role d new)"

definition is_integrity_error :: "error \<Rightarrow> bool" where
  "is_integrity_error e =
     (case e of Rls_violation \<Rightarrow> False | Not_null_violation \<Rightarrow> True
      | Unique_violation \<Rightarrow> True | Foreign_key_violation \<Rightarrow> True)"

subsection \<open>The trigger on auth.users\<close>

text \<open>\<open>handle_new_user\<close>: \<open>INSERT INTO user_roles (user_id, role) VALUES (NEW.id,
  'USER')\<close>, run after each row inserted into \<open>auth.users\<close>.\<close>

definition handle_new_user :: "db \<Rightarrow> uuid \<Rightarrow> uuid \<Rightarrow> timestamptz \<Rightarrow> error + db" where
  "handle_new_user d new_id gen now =
     insert_user_role_as_owner d gen now
       \<lparr>q_id = Omitted, q_user_id = Supplied (Some new_id), q_role = Supplied (Some USER),
        q_created_at = Omitted\<rparr>"

text \<open>Registering an identity: the row of \<open>auth.users\<close> (its primary key is \<open>id\<close>),
  then the trigger \<open>on_auth_user_created\<close>; an error of the trigger aborts the
  registration.\<close>

definition create_user :: "db \<Rightarrow> uuid \<Rightarrow> uuid \<Rightarrow> timestamptz \<Rightarrow> error + db" where
  "create_user d new_id gen now =
     (if new_id \<in> set (auth_users d) then Inl Unique_violation
      else handle_new_user (d\<lparr>auth_users := auth_users d @ [new_id]\<rparr>) new_id gen now)"

subsection \<open>Client requests on user_roles\<close>

text \<open>The SET clause of an UPDATE on \<open>user_roles\<close>.\<close>

definition user_roles_set :: "user_roles_payload \<Rightarrow> user_roles_row \<Rightarrow> user_roles_row" where
  "user_roles_set q r =
     \<lparr>role_id = col_or (q_id q) (role_id r),
      role_user_id = col_or (q_user_id q) (role_user_id r),
      role = col_or (q_role q) (role r),
      role_created_at = col_or (q_created_at q) (role_created_at r)\<rparr>"

text \<open>UPDATE and DELETE by a client, with any WHERE clause \<open>wh\<close>: they work on the rows
  that the WHERE clause selects and that the SELECT policy and the policies of the
  command admit. No policy is declared for UPDATE or DELETE on \<open>user_roles\<close>.\<close>

definition update_user_roles ::
    "db \<Rightarrow> uuid option \<Rightarrow> (user_roles_row \<Rightarrow> bool) \<Rightarrow> user_roles_payload \<Rightarrow> error + (nat \<times> db)" where
  "update_user_roles d uid wh q =
     (case update_rows
             (\<lambda>r. wh r \<and> user_roles_select_using d uid r \<and> user_roles_update_using d uid r)
             (\<lambda>r. let new = user_roles_set q r in
                  if \<not> user_roles_not_null new then Inl Not_null_violation
                  else if \<not> user_roles_fk d new then Inl Foreign_key_violation
                  else Inr new)
             (user_roles d) of
        Inl e \<Rightarrow> Inl e
      | Inr (n, rs) \<Rightarrow>
          if distinct (map role_id rs) \<and> distinct (map (\<lambda>r. (role_user_id r, role r)) rs)
          then Inr (n, d\<lparr>user_roles := rs\<rparr>)
          else Inl Unique_violation)"

definition delete_user_roles :: "db \<Rightarrow> uuid option \<Rightarrow> (user_roles_row \<Rightarrow> bool) \<Rightarrow> db" where
  "delete_user_roles d uid wh =
     d\<lparr>user_roles :=
         filter (\<lambda>r. \<not> (wh r \<and> user_roles_select_using d uid r \<and> user_roles_delete_using d uid r))
           (user_roles d)\<rparr>"

datatype user_roles_request =
  Insert_role user_roles_payload
  | Update_role "user_roles_row \<Rightarrow> bool" user_roles_payload
  | Delete_role "user_roles_row \<Rightarrow> bool"

text \<open>One request of a client on \<open>user_roles\<close>: who issues it, the values of
  \<open>gen_random_uuid()\<close> and \<open>now()\<close> in it, and the command. The database after it.\<close>

fun user_roles_step ::
    "db \<Rightarrow> uuid option \<times> uuid \<times> timestamptz \<times> user_roles_request \<Rightarrow> db" where
  "user_roles_step d (uid, gen, now, Insert_role q) = commit d (insert_user_role d uid gen now q)"
| "user_roles_step d (uid, gen, now, Update_role wh q) =
     commit d (map_sum id snd (update_user_roles d uid wh q))"
| "user_roles_step d (uid, gen, now, Delete_role wh) = delete_user_roles d uid wh"

subsection \<open>Strings of the client code\<close>

text \<open>A string of the client code is a sequence of UTF-16 code units, and its
  \<open>length\<close> counts them. \<open>ascii\<close> writes a literal of the code that is in ASCII.\<close>

definition ascii :: "string \<Rightarrow> js_string" where
  "ascii s = map (\<lambda>c. word_of_nat (of_char c)) s"



subsection \<open>The submission form\<close>

text \<open>The sources hold two copies of the submission page, each with a function
  \<open>handleSubmit\<close>. The first declares \<open>reportSchema\<close> and parses the state of the form
  with it before it issues any request; it is \<open>handleSubmit\<close> here. The second has no
  schema and inserts the state of the form as it is; it is
  \<open>handleSubmit_without_schema\<close> here.\<close>




record report_data =
  out_title :: js_string
  out_category :: js_string
  out_description :: js_string
  out_location :: "js_string option"







record image_file =
  file_name :: js_string
  file_size :: nat


text \<open>\<open>s || undefined\<close> and \<open>s || null\<close>: the empty string is falsy.\<close>

definition or_absent :: "js_string option \<Rightarrow> js_string option" where
  "or_absent s = (case s of None \<Rightarrow> None | Some x \<Rightarrow> if x = [] then None else Some x)"

text \<open>The database reads the category of a request as a label of \<open>report_category\<close>.
  A string that is no label cannot be read and the database refuses the request; it is
  written as NULL here, which the column refuses as well.\<close>

definition category_of :: "js_string \<Rightarrow> report_category option" where
  "category_of c =
     (if c = ascii ''power_outage'' then Some power_outage
      else if c = ascii ''water_cut'' then Some water_cut
      else if c = ascii ''road_damage'' then Some road_damage
      else if c = ascii ''other'' then Some other
      else None)"


text \<open>The object that \<open>handleSubmit\<close> inserts: six columns, and no status.\<close>

definition insert_payload :: "uuid \<Rightarrow> report_data \<Rightarrow> js_string option \<Rightarrow> reports_payload" where
  "insert_payload user data imageUrl =
     no_columns
       \<lparr>p_title := Supplied (Some (out_title data)),
        p_category := Supplied (category_of (out_category data)),
        p_description := Supplied (Some (out_description data)),
        p_location := Supplied (or_absent (out_location data)),
        p_image_url := Supplied imageUrl,
        p_user_id := Supplied (Some user)\<rparr>"






subsection \<open>The submission form without the schema\<close>




subsection \<open>The dashboard\<close>

text \<open>\<open>fetchStats\<close> selects the column \<open>status\<close> of the reports the caller can read,
  and, when the request returned rows, counts them: all of them, and those whose status
  is each of the three labels. With no rows returned the counts shown stay as they
  were. The fields \<open>total\<close>, \<open>verified\<close>, \<open>pending\<close> and \<open>rejected\<close> of the counts
  carry the prefix \<open>n_\<close> here.\<close>

record status_row =
  row_status :: js_string

record stats =
  n_total :: nat
  n_verified :: nat
  n_pending :: nat
  n_rejected :: nat

definition fetchStats :: "stats \<Rightarrow> status_row list option \<Rightarrow> stats" where
  "fetchStats shown_before data =
     (case data of
        None \<Rightarrow> shown_before
      | Some rows \<Rightarrow>
          \<lparr>n_total = length rows,
           n_verified = length (filter (\<lambda>r. row_status r = ascii ''verified'') rows),
           n_pending = length (filter (\<lambda>r. row_status r = ascii ''pending'') rows),
           n_rejected = length (filter (\<lambda>r. row_status r = ascii ''rejected'') rows)\<rparr>)"

subsection \<open>A small database\<close>

text \<open>Three identities: 1 and 3 hold the role USER, 2 holds MODERATOR as well. Report 10
  of user 1 is pending, report 11 of user 3 is rejected, report 12 of user 3 is
  verified.\<close>

definition role_of :: "uuid \<Rightarrow> uuid \<Rightarrow> app_role \<Rightarrow> user_roles_row" where
  "role_of i u ro =
     \<lparr>role_id = Some i, role_user_id = Some u, role = Some ro, role_created_at = Some 50\<rparr>"

definition report_of :: "uuid \<Rightarrow> uuid \<Rightarrow> report_status \<Rightarrow> reports_row" where
  "report_of i u s =
     \<lparr>report_id = Some i, title = Some (ascii ''pothole''),
      category = Some road_damage, description = Some (ascii ''pothole on Elm St''),
      image_url = None, location = None, status = Some s, user_id = Some u,
      verified_by = None, verified_at = None, created_at = Some 100, updated_at = Some 100\<rparr>"

definition db0 :: db where
  "db0 =
     \<lparr>auth_users = [1, 2, 3],
      user_roles = [role_of 101 1 USER, role_of 102 2 USER, role_of 103 2 MODERATOR,
                    role_of 104 3 USER],
      reports = [report_of 10 1 pending, report_of 11 3 rejected, report_of 12 3 verified]\<rparr>"

text \<open>A valid submission, and the state of a form that holds it.\<close>

definition pothole :: report_data where
  "pothole =
     \<lparr>out_title = ascii ''pothole'', out_category = ascii ''road_damage'',
      out_description = ascii ''pothole on Elm St'', out_location = None\<rparr>"


section \<open>Facts about UPDATE\<close>

lemma update_rows_map:
  "(\<forall>r \<in> set rs. sel r \<longrightarrow> f r = Inr (g r)) \<Longrightarrow>
   update_rows sel f rs = Inr (length (filter sel rs), map (\<lambda>r. if sel r then g r else r) rs)"
  by (induction rs) auto

lemma update_rows_rel:
  "update_rows sel f rs = Inr (n, rs') \<Longrightarrow>
   list_all2 (\<lambda>r r'. (sel r \<longrightarrow> f r = Inr r') \<and> (\<not> sel r \<longrightarrow> r' = r)) rs rs'"
proof (induction rs arbitrary: n rs')
  case Nil
  then show ?case by simp
next
  case (Cons r rs)
  then show ?case
    by (auto split: if_splits sum.splits prod.splits)
qed

lemma update_rows_cong:
  "(\<forall>r \<in> set rs. sel r = sel' r) \<Longrightarrow> update_rows sel f rs = update_rows sel' f rs"
  by (induction rs) (auto split: sum.splits)

lemma filter_eq_once: "distinct rs \<Longrightarrow> r \<in> set rs \<Longrightarrow> filter (\<lambda>x. x = r) rs = [r]"
  by (induction rs) (auto simp: filter_empty_conv)

lemma update_using_select:
  "reports_update_using d uid r \<Longrightarrow> reports_select_using d uid r"
  by (auto simp: reports_update_using_def reports_select_using_def
        users_can_update_their_own_pending_reports_def moderators_can_update_any_report_def
        anyone_can_view_verified_reports_def)

lemma update_report_one:
  assumes dist: "distinct (map report_id (reports d))"
    and r: "r \<in> set (reports d)" "report_id r = Some rid"
    and upd: "reports_update_using d uid r"
    and row: "update_row d uid now p r = Inr r'"
    and same: "report_id r' = report_id r"
  shows "update_report d uid now (Some rid) p =
           Inr (1, d\<lparr>reports := map (\<lambda>x. if x = r then r' else x) (reports d)\<rparr>)"
proof -
  let ?sel = "\<lambda>x. sql_eq (report_id x) (Some rid) \<and> reports_select_using d uid x
                  \<and> reports_update_using d uid x"
  let ?f = "update_row d uid now p"
  have inj: "inj_on report_id (set (reports d))" and drs: "distinct (reports d)"
    using dist by (simp_all add: distinct_map)
  have sel: "\<forall>x \<in> set (reports d). ?sel x = (x = r)"
  proof
    fix x assume x: "x \<in> set (reports d)"
    show "?sel x = (x = r)"
    proof
      assume "?sel x"
      then have "report_id x = report_id r" using r(2) by (simp add: sql_eq_def)
      with inj x r(1) show "x = r" by (auto dest: inj_onD)
    next
      assume "x = r"
      then show "?sel x" using r(2) upd update_using_select [OF upd] by (simp add: sql_eq_def)
    qed
  qed
  have "update_rows ?sel ?f (reports d) = update_rows (\<lambda>x. x = r) ?f (reports d)"
    by (rule update_rows_cong) (use sel in blast)
  also have "\<dots> = Inr (length (filter (\<lambda>x. x = r) (reports d)),
                      map (\<lambda>x. if x = r then r' else x) (reports d))"
    by (rule update_rows_map) (simp add: row)
  also have "length (filter (\<lambda>x. x = r) (reports d)) = 1"
    by (simp add: filter_eq_once [OF drs r(1)])
  finally have rows: "update_rows ?sel ?f (reports d) =
      Inr (1, map (\<lambda>x. if x = r then r' else x) (reports d))" .
  have ids: "map report_id (map (\<lambda>x. if x = r then r' else x) (reports d)) = map report_id (reports d)"
    by (simp add: same if_distrib [of report_id])
  have "distinct (map report_id (map (\<lambda>x. if x = r then r' else x) (reports d)))"
    unfolding ids by (rule dist)
  then show ?thesis
    unfolding update_report_def rows by (simp only: sum.case prod.case if_True)
qed

lemma update_report_none:
  assumes dist: "distinct (map report_id (reports d))"
    and none: "\<forall>x \<in> set (reports d). report_id x = Some rid \<longrightarrow> \<not> reports_update_using d uid x"
  shows "update_report d uid now (Some rid) p = Inr (0, d)"
proof -
  let ?sel = "\<lambda>x. sql_eq (report_id x) (Some rid) \<and> reports_select_using d uid x
                  \<and> reports_update_using d uid x"
  have "update_rows ?sel (update_row d uid now p) (reports d)
          = update_rows (\<lambda>x. False) (update_row d uid now p) (reports d)"
    by (rule update_rows_cong) (use none in \<open>auto simp: sql_eq_def\<close>)
  also have "\<dots> = Inr (0, reports d)"
    using update_rows_map [of "reports d" "\<lambda>x. False" "update_row d uid now p" id] by simp
  finally show ?thesis
    unfolding update_report_def using dist by simp
qed

lemmas policy_defs =
  reports_select_using_def reports_insert_check_def reports_update_using_def
  reports_update_check_def anyone_can_view_verified_reports_def users_can_create_reports_def
  users_can_update_their_own_pending_reports_def moderators_can_update_any_report_def

lemma db0_ok: "db_ok db0"
  by (simp add: db_ok_def db0_def role_of_def report_of_def user_roles_not_null_def
      user_roles_fk_def reports_not_null_def reports_fk_def references_auth_users_def)


lemma set_status_payload:
  "reports_set (status_payload s) r = r\<lparr>status := Some s\<rparr>"
  by (simp add: reports_set_def status_payload_def no_columns_def col_or_def)

lemma moderator_update_row:
  assumes "has_role d uid (Some MODERATOR)" "reports_not_null r" "reports_fk d r"
  shows "update_row d uid now (status_payload s) r = Inr (r\<lparr>status := Some s, updated_at := Some now\<rparr>)"
  using assms
  by (auto simp: update_row_def set_status_payload update_updated_at_column_def policy_defs
      reports_not_null_def reports_fk_def Let_def)

lemma moderator_status_update:
  assumes ok: "db_ok d" and r: "r \<in> set (reports d)" "report_id r = Some k"
    and m: "has_role d uid (Some MODERATOR)"
  shows "update_report d uid now (Some k) (status_payload s) =
           Inr (1, d\<lparr>reports := map (\<lambda>x. if x = r then r\<lparr>status := Some s, updated_at := Some now\<rparr> else x)
                                    (reports d)\<rparr>)"
proof -
  from ok r(1) have c: "reports_not_null r" "reports_fk d r" and dist: "distinct (map report_id (reports d))"
    by (auto simp: db_ok_def list_all_iff)
  show ?thesis
    by (rule update_report_one [OF dist r])
       (simp_all add: moderator_update_row [OF m c] reports_update_using_def
          moderators_can_update_any_report_def m)
qed

lemma update_row_not_moderator:
  assumes "\<not> has_role d uid (Some MODERATOR)" "reports_update_using d uid r"
    "update_row d uid now p r = Inr r'"
  shows "status r' = status r \<and> user_id r' = user_id r"
  using assms
  by (auto simp: update_row_def Let_def update_updated_at_column_def policy_defs sql_eq_def
      split: if_splits)

lemma update_report_rel:
  assumes "update_report d uid now rid p = Inr (n, d')"
  shows "list_all2 (\<lambda>r r'. (reports_update_using d uid r \<and> update_row d uid now p r = Inr r') \<or> r' = r)
           (reports d) (reports d')"
proof -
  from assms obtain rs where rows: "update_rows
             (\<lambda>r. sql_eq (report_id r) rid \<and> reports_select_using d uid r
                  \<and> reports_update_using d uid r)
             (update_row d uid now p) (reports d) = Inr (n, rs)" and d': "d' = d\<lparr>reports := rs\<rparr>"
    by (auto simp: update_report_def split: sum.splits prod.splits if_splits)
  show ?thesis
    unfolding d' using update_rows_rel [OF rows]
    by (auto elim!: list_all2_mono)
qed

lemma same_id:
  "distinct (map report_id rs) \<Longrightarrow> x \<in> set rs \<Longrightarrow> r \<in> set rs \<Longrightarrow>
   report_id x = Some k \<Longrightarrow> report_id r = Some k \<Longrightarrow> x = r"
  by (auto simp: distinct_map dest!: inj_onD [of report_id "set rs" x r])

lemma update_rows_error:
  "r \<in> set rs \<Longrightarrow> f r = Inl e \<Longrightarrow> update_rows (\<lambda>x. x = r) f rs = Inl e"
  by (induction rs) (auto split: sum.splits)

lemma update_report_error:
  assumes dist: "distinct (map report_id (reports d))"
    and r: "r \<in> set (reports d)" "report_id r = Some rid"
    and upd: "reports_update_using d uid r"
    and row: "update_row d uid now p r = Inl e"
  shows "update_report d uid now (Some rid) p = Inl e"
proof -
  let ?sel = "\<lambda>x. sql_eq (report_id x) (Some rid) \<and> reports_select_using d uid x
                  \<and> reports_update_using d uid x"
  have "\<forall>x \<in> set (reports d). ?sel x = (x = r)"
    using r upd update_using_select [OF upd]
    by (auto simp: sql_eq_def dest: same_id [OF dist])
  then have "update_rows ?sel (update_row d uid now p) (reports d)
               = update_rows (\<lambda>x. x = r) (update_row d uid now p) (reports d)"
    by (intro update_rows_cong) 
  also have "\<dots> = Inl e"
    using r(1) row by (rule update_rows_error)
  finally show ?thesis
    by (simp add: update_report_def)
qed

lemma owner_using:
  assumes "user_id r = Some u" "\<not> has_role d (Some u) (Some MODERATOR)"
  shows "reports_update_using d (Some u) r \<longleftrightarrow> status r = Some pending"
  using assms by (auto simp: policy_defs sql_eq_def)

lemma owner_update_row:
  assumes "\<not> has_role d (Some u) (Some MODERATOR)"
  shows "update_row d (Some u) now p r =
     (let new = update_updated_at_column now (reports_set p r) in
      if \<not> (user_id new = Some u \<and> status new = Some pending) then Inl Rls_violation
      else if \<not> reports_not_null new then Inl Not_null_violation
      else if \<not> reports_fk d new then Inl Foreign_key_violation
      else Inr new)"
  using assms by (auto simp: update_row_def Let_def policy_defs sql_eq_def)

lemmas eval_defs =
  update_report_def update_row_def update_updated_at_column_def reports_set_def
  status_payload_def no_columns_def col_or_def policy_defs sql_eq_def has_role_def
  reports_not_null_def reports_fk_def references_auth_users_def
  db0_def role_of_def report_of_def

section \<open>Facts about INSERT\<close>

lemma insert_report_Inr:
  assumes "insert_report d uid gen now p = Inr d'"
  shows "d' = d\<lparr>reports := reports d @ [reports_new gen now p]\<rparr>
         \<and> sql_eq uid (user_id (reports_new gen now p))"
  using assms
  by (auto simp: insert_report_def Let_def reports_insert_check_def users_can_create_reports_def
      split: if_splits)

lemma not_moderator_keeps_status:
  assumes nm: "\<not> has_role d uid (Some MODERATOR)"
    and upd: "update_report d uid now rid p = Inr (n, d')"
  shows "map status (reports d') = map status (reports d)"
proof -
  have "list_all2 (\<lambda>r r'. status r' = status r) (reports d) (reports d')"
    using update_report_rel [OF upd]
    by (rule list_all2_mono) (auto dest: update_row_not_moderator [OF nm])
  then show ?thesis
    by (induction rule: list_all2_induct) simp_all
qed

section \<open>Facts about user_roles\<close>

lemma insert_user_role_Inr:
  assumes "insert_user_role d uid gen now q = Inr d'"
  shows "\<exists>r. d' = d\<lparr>user_roles := user_roles d @ [r]\<rparr> \<and> uid \<noteq> None \<and> role_user_id r = uid
             \<and> role r = Some USER"
  using assms
  by (auto simp: insert_user_role_def store_user_role_def Let_def user_roles_insert_check_def
      users_can_insert_their_own_role_on_signup_def sql_eq_def split: if_splits)

lemma update_user_roles_none: "commit d (map_sum id snd (update_user_roles d uid wh q)) = d"
proof -
  have "update_rows (\<lambda>r. False) f (user_roles d) = Inr (0, user_roles d)" for f
    using update_rows_map [of "user_roles d" "\<lambda>r. False" f id] by simp
  then show ?thesis
    by (simp add: update_user_roles_def user_roles_update_using_def commit_def)
qed

lemma delete_user_roles_none: "delete_user_roles d uid wh = d"
  by (simp add: delete_user_roles_def user_roles_delete_using_def)

lemma user_roles_step_moderators:
  "filter (\<lambda>r. role r = Some MODERATOR) (user_roles (user_roles_step d x))
     = filter (\<lambda>r. role r = Some MODERATOR) (user_roles d)"
proof -
  obtain uid gen now req where x: "x = (uid, gen, now, req)"
    by (cases x) auto
  show ?thesis
  proof (cases req)
    case (Insert_role q)
    show ?thesis
    proof (cases "insert_user_role d uid gen now q")
      case (Inl e)
      with x Insert_role show ?thesis by (simp add: commit_def)
    next
      case (Inr d')
      from insert_user_role_Inr [OF Inr] x Insert_role Inr show ?thesis
        by (auto simp: commit_def)
    qed
  next
    case (Update_role wh q)
    with x show ?thesis by (simp add: update_user_roles_none)
  next
    case (Delete_role wh)
    with x show ?thesis by (simp add: delete_user_roles_none)
  qed
qed

lemma has_role_moderators:
  "has_role d v (Some MODERATOR)
     = list_ex (\<lambda>r. sql_eq (role_user_id r) v) (filter (\<lambda>r. role r = Some MODERATOR) (user_roles d))"
  by (auto simp: has_role_def sql_eq_def list_ex_iff)

lemma requests_keep_moderators:
  "filter (\<lambda>r. role r = Some MODERATOR) (user_roles (foldl user_roles_step d reqs))
     = filter (\<lambda>r. role r = Some MODERATOR) (user_roles d)"
  by (induction reqs arbitrary: d) (simp_all add: user_roles_step_moderators)

lemma create_user_fresh:
  assumes ok: "db_ok d" and u: "u \<notin> set (auth_users d)"
    and gen: "Some gen \<notin> set (map role_id (user_roles d))"
    and row: "row = \<lparr>role_id = Some gen, role_user_id = Some u, role = Some USER, role_created_at = Some now\<rparr>"
    and d': "d' = d\<lparr>auth_users := auth_users d @ [u], user_roles := user_roles d @ [row]\<rparr>"
  shows "create_user d u gen now = Inr d'" "filter (\<lambda>r. role_user_id r = Some u) (user_roles d') = [row]"
proof -
  from ok have fk: "\<forall>r \<in> set (user_roles d). references_auth_users d (role_user_id r)"
    by (simp add: db_ok_def list_all_iff user_roles_fk_def)
  have no: "\<forall>r \<in> set (user_roles d). role_user_id r \<noteq> Some u"
  proof
    fix r assume "r \<in> set (user_roles d)"
    with fk have "references_auth_users d (role_user_id r)" by blast
    with u show "role_user_id r \<noteq> Some u"
      by (auto simp: references_auth_users_def)
  qed
  then have pair: "(Some u, Some USER) \<notin> set (map (\<lambda>r. (role_user_id r, role r)) (user_roles d))"
    by auto
  show "create_user d u gen now = Inr d'"
    using u gen pair
    by (simp add: create_user_def handle_new_user_def insert_user_role_as_owner_def
        store_user_role_def user_roles_new_def col_or_def user_roles_not_null_def
        user_roles_fk_def references_auth_users_def row d')
  have "filter (\<lambda>r. role_user_id r = Some u) (user_roles d) = []"
    using no by (simp add: filter_empty_conv)
  then show "filter (\<lambda>r. role_user_id r = Some u) (user_roles d') = [row]"
    by (simp add: d' row)
qed

section \<open>Facts about the client code\<close>

lemma three_labels:
  "ascii ''verified'' \<noteq> ascii ''pending''" "ascii ''verified'' \<noteq> ascii ''rejected''"
  "ascii ''pending'' \<noteq> ascii ''rejected''"
  by (simp_all add: ascii_def)

lemma count_three:
  assumes "\<forall>r \<in> set rows. f r = a \<or> f r = b \<or> f r = c" "a \<noteq> b" "a \<noteq> c" "b \<noteq> c"
  shows "length rows = length (filter (\<lambda>r. f r = a) rows) + length (filter (\<lambda>r. f r = b) rows)
           + length (filter (\<lambda>r. f r = c) rows)"
  using assms by (induction rows) auto







lemmas insert_defs =
  insert_report_def reports_new_def insert_payload_def pothole_def category_of_def
  or_absent_def ascii_def

section \<open>Reading reports\<close>

text \<open>
  C4. A read of \<open>reports\<close> returns a stored row if and only if its status is verified,
  or the caller is its owner, or the caller holds the MODERATOR role. The result is a
  list of rows: a row that is denied is left out of it, and no error is raised.
\<close>

theorem select_reports_iff:
  "r \<in> set (select_reports d uid) \<longleftrightarrow>
     r \<in> set (reports d)
     \<and> (status r = Some verified
        \<or> (uid \<noteq> None \<and> uid = user_id r)
        \<or> has_role d uid (Some MODERATOR))"
  by (auto simp: select_reports_def reports_select_using_def
        anyone_can_view_verified_reports_def sql_eq_def)

theorem select_reports_iff_witness:
  "report_of 12 3 verified \<in> set (select_reports db0 None)
   \<and> report_of 10 1 pending \<in> set (select_reports db0 (Some 1))
   \<and> report_of 11 3 rejected \<in> set (select_reports db0 (Some 2))
   \<and> report_of 11 3 rejected \<notin> set (select_reports db0 (Some 1))
   \<and> select_reports db0 (Some 1) = [report_of 10 1 pending, report_of 12 3 verified]"
  using select_reports_iff [of "report_of 12 3 verified" db0 None]
    select_reports_iff [of "report_of 10 1 pending" db0 "Some 1"]
    select_reports_iff [of "report_of 11 3 rejected" db0 "Some 2"]
    select_reports_iff [of "report_of 11 3 rejected" db0 "Some 1"]
  by (simp add: select_reports_def eval_defs)

section \<open>Updates by the owner\<close>

text \<open>
  C5, as amended. For an update request \<open>update(p).eq("id", k)\<close> on a report by its
  owner, who does not hold the MODERATOR role, where \<open>new\<close> is the row the request
  would produce:
  \<^item> if the current status is pending and \<open>new\<close> is still pending, still owned by the
    caller, keeps its id and satisfies the constraints of the table, the request
    succeeds: it rewrites exactly that row, to \<open>new\<close>;
  \<^item> if the current status is pending and \<open>new\<close> is not pending or not owned by the
    caller, the request is rejected by row-level security;
  \<^item> if the current status is not pending, the request updates no row and leaves the
    database as it is (the row is not visible to the UPDATE; no error is returned).
\<close>

theorem owner_update:
  assumes ok: "db_ok d" and r: "r \<in> set (reports d)" "report_id r = Some k"
    and own: "user_id r = Some u" and nm: "\<not> has_role d (Some u) (Some MODERATOR)"
    and new: "new = update_updated_at_column now (reports_set p r)"
  shows "(status r = Some pending \<and> status new = Some pending \<and> user_id new = Some u
          \<and> report_id new = Some k \<and> reports_not_null new \<and> reports_fk d new
          \<longrightarrow> update_report d (Some u) now (Some k) p =
                Inr (1, d\<lparr>reports := map (\<lambda>x. if x = r then new else x) (reports d)\<rparr>))
       \<and> (status r = Some pending \<and> (status new \<noteq> Some pending \<or> user_id new \<noteq> Some u)
          \<longrightarrow> update_report d (Some u) now (Some k) p = Inl Rls_violation)
       \<and> (status r \<noteq> Some pending
          \<longrightarrow> update_report d (Some u) now (Some k) p = Inr (0, d))"
proof -
  from ok have dist: "distinct (map report_id (reports d))"
    by (simp add: db_ok_def)
  have one: "update_report d (Some u) now (Some k) p =
                Inr (1, d\<lparr>reports := map (\<lambda>x. if x = r then new else x) (reports d)\<rparr>)"
    if "status r = Some pending" "status new = Some pending" "user_id new = Some u"
      "report_id new = Some k" "reports_not_null new" "reports_fk d new"
  proof (rule update_report_one [OF dist r])
    show "reports_update_using d (Some u) r"
      using that(1) by (simp add: owner_using [OF own nm])
    show "update_row d (Some u) now p r = Inr new"
      using that new by (simp add: owner_update_row [OF nm])
    show "report_id new = report_id r"
      using that(4) r(2) by simp
  qed
  have err: "update_report d (Some u) now (Some k) p = Inl Rls_violation"
    if "status r = Some pending" "status new \<noteq> Some pending \<or> user_id new \<noteq> Some u"
  proof (rule update_report_error [OF dist r])
    show "reports_update_using d (Some u) r"
      using that(1) by (simp add: owner_using [OF own nm])
    show "update_row d (Some u) now p r = Inl Rls_violation"
      using that(2) new by (auto simp: owner_update_row [OF nm])
  qed
  have none: "update_report d (Some u) now (Some k) p = Inr (0, d)"
    if "status r \<noteq> Some pending"
  proof (rule update_report_none [OF dist], intro ballI impI)
    fix x assume x: "x \<in> set (reports d)" "report_id x = Some k"
    with r have "x = r" by (auto dest: same_id [OF dist])
    then show "\<not> reports_update_using d (Some u) x"
      using that by (simp add: owner_using [OF own nm])
  qed
  from one err none show ?thesis by blast
qed

theorem owner_update_witness:
  "db_ok db0 \<and> \<not> has_role db0 (Some 1) (Some MODERATOR) \<and> \<not> has_role db0 (Some 3) (Some MODERATOR)
   \<and> update_report db0 (Some 1) 200 (Some 10) (no_columns\<lparr>p_title := Supplied (Some (ascii ''x''))\<rparr>)
       = Inr (1, db0\<lparr>reports := [(report_of 10 1 pending)\<lparr>title := Some (ascii ''x''), updated_at := Some 200\<rparr>,
                                  report_of 11 3 rejected, report_of 12 3 verified]\<rparr>)
   \<and> update_report db0 (Some 1) 200 (Some 10) (status_payload verified) = Inl Rls_violation
   \<and> update_report db0 (Some 3) 200 (Some 11) (no_columns\<lparr>p_title := Supplied (Some (ascii ''x''))\<rparr>)
       = Inr (0, db0)"
proof -
  have nm: "\<not> has_role db0 (Some 1) (Some MODERATOR)" "\<not> has_role db0 (Some 3) (Some MODERATOR)"
    by (simp_all add: has_role_def db0_def role_of_def sql_eq_def)
  have r10: "report_of 10 1 pending \<in> set (reports db0)" "report_id (report_of 10 1 pending) = Some 10"
    "user_id (report_of 10 1 pending) = Some 1"
    and r11: "report_of 11 3 rejected \<in> set (reports db0)" "report_id (report_of 11 3 rejected) = Some 11"
    "user_id (report_of 11 3 rejected) = Some 3"
    by (simp_all add: db0_def report_of_def)
  note a = owner_update [OF db0_ok r10 nm(1) refl, of 200 "no_columns\<lparr>p_title := Supplied (Some (ascii ''x''))\<rparr>"]
  note b = owner_update [OF db0_ok r10 nm(1) refl, of 200 "status_payload verified"]
  note c = owner_update [OF db0_ok r11 nm(2) refl, of 200 "no_columns\<lparr>p_title := Supplied (Some (ascii ''x''))\<rparr>"]
  have "update_report db0 (Some 1) 200 (Some 10) (no_columns\<lparr>p_title := Supplied (Some (ascii ''x''))\<rparr>)
       = Inr (1, db0\<lparr>reports := [(report_of 10 1 pending)\<lparr>title := Some (ascii ''x''), updated_at := Some 200\<rparr>,
                                  report_of 11 3 rejected, report_of 12 3 verified]\<rparr>)"
    using a
    by (simp add: update_updated_at_column_def reports_set_def no_columns_def col_or_def
        report_of_def reports_not_null_def reports_fk_def references_auth_users_def db0_def)
  moreover have "update_report db0 (Some 1) 200 (Some 10) (status_payload verified) = Inl Rls_violation"
    using b
    by (simp add: update_updated_at_column_def reports_set_def no_columns_def col_or_def
        report_of_def status_payload_def)
  moreover have "update_report db0 (Some 3) 200 (Some 11) (no_columns\<lparr>p_title := Supplied (Some (ascii ''x''))\<rparr>)
       = Inr (0, db0)"
    using c by (simp add: report_of_def)
  ultimately show ?thesis
    using db0_ok nm by simp
qed

text \<open>The claim as it was stated, that every update request of the owner succeeds
  while the report is pending, fails for a request that sets the status: user 1 owns the
  pending report 10 and asks for status verified.\<close>

theorem owner_cannot_verify_pending_report:
  "report_of 10 1 pending \<in> set (reports db0)
   \<and> user_id (report_of 10 1 pending) = Some 1 \<and> status (report_of 10 1 pending) = Some pending
   \<and> \<not> has_role db0 (Some 1) (Some MODERATOR)
   \<and> update_report db0 (Some 1) 200 (Some 10) (status_payload verified) = Inl Rls_violation"
  by (simp add: eval_defs)

section \<open>Creating a report\<close>

text \<open>
  C3, as amended. For every create-Report request by an authenticated caller whose
  proposed owner is the caller and whose payload names no status, row-level security
  admits the request, and whenever the request succeeds it appends one row, whose status
  is pending (the default of the column) and whose owner is the caller.
\<close>

theorem insert_report_status:
  assumes "uid = Some u" "p_user_id p = Supplied (Some u)" "p_status p = Omitted"
  shows "insert_report d uid gen now p \<noteq> Inl Rls_violation
         \<and> (\<forall>d'. insert_report d uid gen now p = Inr d' \<longrightarrow>
               (\<exists>r. reports d' = reports d @ [r] \<and> status r = Some pending \<and> user_id r = Some u))"
proof -
  have new: "user_id (reports_new gen now p) = Some u" "status (reports_new gen now p) = Some pending"
    using assms by (simp_all add: reports_new_def col_or_def)
  have "insert_report d uid gen now p \<noteq> Inl Rls_violation"
    using assms(1) new(1)
    by (simp add: insert_report_def Let_def reports_insert_check_def users_can_create_reports_def
        sql_eq_def)
  moreover have "\<exists>r. reports d' = reports d @ [r] \<and> status r = Some pending \<and> user_id r = Some u"
    if "insert_report d uid gen now p = Inr d'" for d'
    using insert_report_Inr [OF that] new by simp
  ultimately show ?thesis by blast
qed

theorem insert_report_status_witness:
  "insert_report db0 (Some 1) 13 200 (insert_payload 1 pothole None)
     = Inr (db0\<lparr>reports := reports db0 @ [(report_of 13 1 pending)\<lparr>created_at := Some 200, updated_at := Some 200\<rparr>]\<rparr>)
   \<and> insert_report db0 (Some 1) 13 200 (insert_payload 1 pothole None) \<noteq> Inl Rls_violation
   \<and> (\<exists>r. reports (db0\<lparr>reports := reports db0 @ [(report_of 13 1 pending)\<lparr>created_at := Some 200, updated_at := Some 200\<rparr>]\<rparr>)
             = reports db0 @ [r] \<and> status r = Some pending \<and> user_id r = Some 1)"
proof -
  have e: "insert_report db0 (Some 1) 13 200 (insert_payload 1 pothole None)
     = Inr (db0\<lparr>reports := reports db0 @ [(report_of 13 1 pending)\<lparr>created_at := Some 200, updated_at := Some 200\<rparr>]\<rparr>)"
    by (simp add: insert_defs eval_defs)
  have p: "p_user_id (insert_payload 1 pothole None) = Supplied (Some 1)"
    "p_status (insert_payload 1 pothole None) = Omitted"
    by (simp_all add: insert_payload_def no_columns_def)
  from insert_report_status [OF refl p, of db0 13 200] e show ?thesis
    by blast
qed

text \<open>The claim as it was stated, that the stored status is pending whatever status the
  payload holds, fails: user 1 creates a report with status verified in the payload,
  and the row is stored as verified.\<close>

theorem insert_report_keeps_supplied_status:
  "insert_report db0 (Some 1) 13 200 ((insert_payload 1 pothole None)\<lparr>p_status := Supplied (Some verified)\<rparr>)
     = Inr (db0\<lparr>reports := reports db0 @ [(report_of 13 1 verified)\<lparr>created_at := Some 200, updated_at := Some 200\<rparr>]\<rparr>)
   \<and> status ((report_of 13 1 verified)\<lparr>created_at := Some 200, updated_at := Some 200\<rparr>) = Some verified"
  by (simp add: insert_defs eval_defs)

section \<open>The bookkeeping of updated_at\<close>

text \<open>
  C9. The trigger function sets \<open>updated_at\<close> to the time of the update and changes no
  other field. So a row that an UPDATE rewrites is the row of the SET clause with
  \<open>updated_at\<close> the time of the update, whatever value the request supplied for
  \<open>updated_at\<close>; and after a permitted update every row of the table is either the row
  it was or such a row.
\<close>

theorem update_stamps_updated_at:
  "updated_at (update_updated_at_column now new) = Some now
   \<and> (update_updated_at_column now new)\<lparr>updated_at := updated_at new\<rparr> = new
   \<and> (\<forall>r'. update_row d uid now p r = Inr r' \<longrightarrow>
         r' = (reports_set p r)\<lparr>updated_at := Some now\<rparr>)
   \<and> (\<forall>n d'. update_report d uid now rid p = Inr (n, d') \<longrightarrow>
         list_all2 (\<lambda>r r'. r' = r \<or> r' = (reports_set p r)\<lparr>updated_at := Some now\<rparr>)
           (reports d) (reports d'))"
proof -
  have row: "r' = (reports_set p r)\<lparr>updated_at := Some now\<rparr>"
    if "update_row d uid now p r = Inr r'" for r r'
    using that by (auto simp: update_row_def Let_def update_updated_at_column_def split: if_splits)
  have "list_all2 (\<lambda>r r'. r' = r \<or> r' = (reports_set p r)\<lparr>updated_at := Some now\<rparr>)
           (reports d) (reports d')"
    if "update_report d uid now rid p = Inr (n, d')" for n d'
    using update_report_rel [OF that] by (rule list_all2_mono) (auto dest: row)
  with row show ?thesis
    by (simp add: update_updated_at_column_def)
qed

theorem update_stamps_updated_at_witness:
  "update_row db0 (Some 2) 200 ((status_payload verified)\<lparr>p_updated_at := Supplied (Some 7)\<rparr>)
       (report_of 10 1 pending)
     = Inr ((report_of 10 1 verified)\<lparr>updated_at := Some 200\<rparr>)
   \<and> (report_of 10 1 verified)\<lparr>updated_at := Some 200\<rparr>
     = (reports_set ((status_payload verified)\<lparr>p_updated_at := Supplied (Some 7)\<rparr>) (report_of 10 1 pending))
         \<lparr>updated_at := Some 200\<rparr>
   \<and> updated_at (reports_set ((status_payload verified)\<lparr>p_updated_at := Supplied (Some 7)\<rparr>) (report_of 10 1 pending))
     = Some 7
   \<and> update_report db0 (Some 2) 200 (Some 10) ((status_payload verified)\<lparr>p_updated_at := Supplied (Some 7)\<rparr>)
     = Inr (1, db0\<lparr>reports := [(report_of 10 1 verified)\<lparr>updated_at := Some 200\<rparr>,
                                 report_of 11 3 rejected, report_of 12 3 verified]\<rparr>)
   \<and> list_all2 (\<lambda>r r'. r' = r \<or> r' = (reports_set ((status_payload verified)\<lparr>p_updated_at := Supplied (Some 7)\<rparr>) r)
                                      \<lparr>updated_at := Some 200\<rparr>)
       (reports db0)
       (reports (db0\<lparr>reports := [(report_of 10 1 verified)\<lparr>updated_at := Some 200\<rparr>,
                                 report_of 11 3 rejected, report_of 12 3 verified]\<rparr>))"
proof -
  let ?p = "(status_payload verified)\<lparr>p_updated_at := Supplied (Some 7)\<rparr>"
  have row: "update_row db0 (Some 2) 200 ?p (report_of 10 1 pending)
     = Inr ((report_of 10 1 verified)\<lparr>updated_at := Some 200\<rparr>)"
    by (simp add: eval_defs)
  have rep: "update_report db0 (Some 2) 200 (Some 10) ?p
     = Inr (1, db0\<lparr>reports := [(report_of 10 1 verified)\<lparr>updated_at := Some 200\<rparr>,
                                 report_of 11 3 rejected, report_of 12 3 verified]\<rparr>)"
    by (simp add: eval_defs)
  have sup: "updated_at (reports_set ?p (report_of 10 1 pending)) = Some 7"
    by (simp add: reports_set_def col_or_def)
  note t = update_stamps_updated_at [of 200 "report_of 10 1 pending" db0 "Some 2" ?p "report_of 10 1 pending" "Some 10"]
  from t row rep sup show ?thesis
    by blast
qed

section \<open>Transitions of the status\<close>

text \<open>
  C1, as amended. In a database that satisfies its constraints:
  \<^item> a report created by a request that names no status starts at pending;
  \<^item> an update request that is applied for a caller who does not hold the MODERATOR role
    leaves the status of every report as it was, so the status changes only through a
    caller holding MODERATOR;
  \<^item> the request \<open>update({ status }).eq("id", k)\<close> of a caller holding MODERATOR on a
    stored report succeeds whatever the current status of the report and whatever the
    status it sets, and rewrites that one row. The policy "Moderators can update any
    report" forbids no transition: re-issuing rejected on a rejected report succeeds,
    and a report can be moved out of verified or rejected.
\<close>

theorem status_transitions:
  assumes ok: "db_ok d"
  shows "(\<forall>d'. p_status p = Omitted \<and> insert_report d uid gen now p = Inr d' \<longrightarrow>
            (\<exists>r. reports d' = reports d @ [r] \<and> status r = Some pending))
       \<and> (\<forall>n d'. \<not> has_role d uid (Some MODERATOR) \<and> update_report d uid now rid p = Inr (n, d') \<longrightarrow>
            map status (reports d') = map status (reports d))
       \<and> (\<forall>r k s. has_role d uid (Some MODERATOR) \<and> r \<in> set (reports d) \<and> report_id r = Some k \<longrightarrow>
            update_report d uid now (Some k) (status_payload s) =
              Inr (1, d\<lparr>reports := map (\<lambda>x. if x = r then r\<lparr>status := Some s, updated_at := Some now\<rparr> else x)
                                       (reports d)\<rparr>))"
proof (intro conjI allI impI)
  fix d' assume "p_status p = Omitted \<and> insert_report d uid gen now p = Inr d'"
  then show "\<exists>r. reports d' = reports d @ [r] \<and> status r = Some pending"
    using insert_report_Inr [of d uid gen now p d']
    by (simp add: reports_new_def col_or_def)
next
  fix n d' assume "\<not> has_role d uid (Some MODERATOR) \<and> update_report d uid now rid p = Inr (n, d')"
  then show "map status (reports d') = map status (reports d)"
    using not_moderator_keeps_status by blast
next
  fix r k s assume "has_role d uid (Some MODERATOR) \<and> r \<in> set (reports d) \<and> report_id r = Some k"
  then show "update_report d uid now (Some k) (status_payload s) =
              Inr (1, d\<lparr>reports := map (\<lambda>x. if x = r then r\<lparr>status := Some s, updated_at := Some now\<rparr> else x)
                                       (reports d)\<rparr>)"
    using moderator_status_update [OF ok] by blast
qed

theorem status_transitions_witness:
  "db_ok db0 \<and> has_role db0 (Some 2) (Some MODERATOR) \<and> \<not> has_role db0 (Some 1) (Some MODERATOR)
   \<and> (\<exists>r. reports (db0\<lparr>reports := reports db0 @ [(report_of 13 1 pending)\<lparr>created_at := Some 200, updated_at := Some 200\<rparr>]\<rparr>)
             = reports db0 @ [r] \<and> status r = Some pending)
   \<and> map status (reports (db0\<lparr>reports := [(report_of 10 1 pending)\<lparr>title := Some (ascii ''x''), updated_at := Some 200\<rparr>,
                                  report_of 11 3 rejected, report_of 12 3 verified]\<rparr>))
        = map status (reports db0)
   \<and> update_report db0 (Some 2) 200 (Some 10) (status_payload verified)
       = Inr (1, db0\<lparr>reports := [(report_of 10 1 verified)\<lparr>updated_at := Some 200\<rparr>,
                                   report_of 11 3 rejected, report_of 12 3 verified]\<rparr>)"
proof -
  have nm: "\<not> has_role db0 (Some 1) (Some MODERATOR)" and m: "has_role db0 (Some 2) (Some MODERATOR)"
    by (simp_all add: has_role_def db0_def role_of_def sql_eq_def)
  have ins: "p_status (insert_payload 1 pothole None) = Omitted
     \<and> insert_report db0 (Some 1) 13 200 (insert_payload 1 pothole None)
     = Inr (db0\<lparr>reports := reports db0 @ [(report_of 13 1 pending)\<lparr>created_at := Some 200, updated_at := Some 200\<rparr>]\<rparr>)"
    by (simp add: insert_defs eval_defs)
  have upd: "update_report db0 (Some 1) 200 (Some 10) (no_columns\<lparr>p_title := Supplied (Some (ascii ''x''))\<rparr>)
       = Inr (1, db0\<lparr>reports := [(report_of 10 1 pending)\<lparr>title := Some (ascii ''x''), updated_at := Some 200\<rparr>,
                                  report_of 11 3 rejected, report_of 12 3 verified]\<rparr>)"
    by (simp add: eval_defs)
  have r: "report_of 10 1 pending \<in> set (reports db0)" "report_id (report_of 10 1 pending) = Some 10"
    by (simp_all add: db0_def report_of_def)
  note a = status_transitions [OF db0_ok, of "insert_payload 1 pothole None" "Some 1" 13 200]
  note b = status_transitions [OF db0_ok, of "no_columns\<lparr>p_title := Supplied (Some (ascii ''x''))\<rparr>" "Some 1" 13 200 "Some 10"]
  note c = status_transitions [OF db0_ok, of _ "Some 2" _ 200]
  from a ins have 1: "\<exists>r. reports (db0\<lparr>reports := reports db0 @ [(report_of 13 1 pending)\<lparr>created_at := Some 200, updated_at := Some 200\<rparr>]\<rparr>)
             = reports db0 @ [r] \<and> status r = Some pending"
    by blast
  from b nm upd have 2: "map status (reports (db0\<lparr>reports := [(report_of 10 1 pending)\<lparr>title := Some (ascii ''x''), updated_at := Some 200\<rparr>,
                                  report_of 11 3 rejected, report_of 12 3 verified]\<rparr>))
        = map status (reports db0)"
    by blast
  from c m r have "update_report db0 (Some 2) 200 (Some 10) (status_payload verified) =
              Inr (1, db0\<lparr>reports := map (\<lambda>x. if x = report_of 10 1 pending then (report_of 10 1 pending)\<lparr>status := Some verified, updated_at := Some 200\<rparr> else x)
                                       (reports db0)\<rparr>)"
    by blast
  then have 3: "update_report db0 (Some 2) 200 (Some 10) (status_payload verified)
       = Inr (1, db0\<lparr>reports := [(report_of 10 1 verified)\<lparr>updated_at := Some 200\<rparr>,
                                   report_of 11 3 rejected, report_of 12 3 verified]\<rparr>)"
    by (simp add: db0_def report_of_def)
  from db0_ok m nm 1 2 3 show ?thesis by blast
qed

text \<open>The claim as it was stated fails: the moderator 2 re-issues rejected on the
  rejected report 11 through \<open>updateStatus\<close>, and the request is applied and reported
  as "Report updated"; the moderator moves the verified report 12 to rejected; and
  user 3 creates a report that starts at rejected.\<close>

theorem moderator_moves_report_out_of_terminal_state:
  "has_role db0 (Some 2) (Some MODERATOR)
   \<and> updateStatus db0 (Some 2) 200 11 rejected
       = (Report_updated rejected,
          db0\<lparr>reports := [report_of 10 1 pending, (report_of 11 3 rejected)\<lparr>updated_at := Some 200\<rparr>,
                           report_of 12 3 verified]\<rparr>)
   \<and> update_report db0 (Some 2) 200 (Some 12) (status_payload rejected)
       = Inr (1, db0\<lparr>reports := [report_of 10 1 pending, report_of 11 3 rejected,
                                   (report_of 12 3 rejected)\<lparr>updated_at := Some 200\<rparr>]\<rparr>)
   \<and> insert_report db0 (Some 3) 13 200 ((insert_payload 3 pothole None)\<lparr>p_status := Supplied (Some rejected)\<rparr>)
       = Inr (db0\<lparr>reports := reports db0 @ [(report_of 13 3 rejected)\<lparr>created_at := Some 200, updated_at := Some 200\<rparr>]\<rparr>)"
  by (simp add: updateStatus_def insert_defs eval_defs)

section \<open>Granting roles\<close>

text \<open>
  C7. Registering a new identity (one not yet in \<open>auth.users\<close>, in a database that
  satisfies its constraints, with a fresh key for the new row) succeeds and leaves
  exactly one row of \<open>user_roles\<close> for that identity, with role USER. A client insert
  into \<open>user_roles\<close> that succeeds appends a row whose user is the caller and whose
  role is USER. And after any sequence of client requests on \<open>user_roles\<close> (inserts,
  updates and deletes, by any callers) every identity holds the MODERATOR role exactly
  if it held it before.
\<close>

theorem user_role_grants:
  "(db_ok d \<and> u \<notin> set (auth_users d) \<and> Some gen \<notin> set (map role_id (user_roles d)) \<longrightarrow>
      create_user d u gen now =
        Inr (d\<lparr>auth_users := auth_users d @ [u],
               user_roles := user_roles d @ [\<lparr>role_id = Some gen, role_user_id = Some u,
                                              role = Some USER, role_created_at = Some now\<rparr>]\<rparr>)
      \<and> filter (\<lambda>r. role_user_id r = Some u)
            (user_roles d @ [\<lparr>role_id = Some gen, role_user_id = Some u,
                                role = Some USER, role_created_at = Some now\<rparr>])
          = [\<lparr>role_id = Some gen, role_user_id = Some u, role = Some USER,
               role_created_at = Some now\<rparr>])
   \<and> (\<forall>d'. insert_user_role d uid gen now q = Inr d' \<longrightarrow>
         (\<exists>r. d' = d\<lparr>user_roles := user_roles d @ [r]\<rparr> \<and> uid \<noteq> None \<and> role_user_id r = uid
              \<and> role r = Some USER))
   \<and> (has_role (foldl user_roles_step d reqs) v (Some MODERATOR) \<longleftrightarrow> has_role d v (Some MODERATOR))"
proof (intro conjI impI allI)
  assume a: "db_ok d \<and> u \<notin> set (auth_users d) \<and> Some gen \<notin> set (map role_id (user_roles d))"
  note c = create_user_fresh [OF _ _ _ refl refl, of d u gen now]
  from a c(1) show "create_user d u gen now =
        Inr (d\<lparr>auth_users := auth_users d @ [u],
               user_roles := user_roles d @ [\<lparr>role_id = Some gen, role_user_id = Some u,
                                              role = Some USER, role_created_at = Some now\<rparr>]\<rparr>)"
    by blast
  from a c(2) show "filter (\<lambda>r. role_user_id r = Some u)
            (user_roles d @ [\<lparr>role_id = Some gen, role_user_id = Some u,
                                role = Some USER, role_created_at = Some now\<rparr>])
          = [\<lparr>role_id = Some gen, role_user_id = Some u, role = Some USER,
               role_created_at = Some now\<rparr>]"
    by simp
next
  fix d' assume "insert_user_role d uid gen now q = Inr d'"
  then show "\<exists>r. d' = d\<lparr>user_roles := user_roles d @ [r]\<rparr> \<and> uid \<noteq> None \<and> role_user_id r = uid
              \<and> role r = Some USER"
    by (rule insert_user_role_Inr)
next
  show "has_role (foldl user_roles_step d reqs) v (Some MODERATOR) \<longleftrightarrow> has_role d v (Some MODERATOR)"
    by (simp only: has_role_moderators requests_keep_moderators)
qed

theorem user_role_grants_witness:
  "db_ok db0 \<and> 4 \<notin> set (auth_users db0) \<and> Some 105 \<notin> set (map role_id (user_roles db0))
   \<and> create_user db0 4 105 300
       = Inr (db0\<lparr>auth_users := auth_users db0 @ [4],
                  user_roles := user_roles db0 @ [role_of 105 4 USER\<lparr>role_created_at := Some 300\<rparr>]\<rparr>)
   \<and> filter (\<lambda>r. role_user_id r = Some 4)
        (user_roles db0 @ [role_of 105 4 USER\<lparr>role_created_at := Some 300\<rparr>])
       = [role_of 105 4 USER\<lparr>role_created_at := Some 300\<rparr>]
   \<and> insert_user_role db0 (Some 1) 105 300
        \<lparr>q_id = Omitted, q_user_id = Supplied (Some 1), q_role = Supplied (Some MODERATOR),
         q_created_at = Omitted\<rparr> = Inl Rls_violation
   \<and> \<not> has_role (foldl user_roles_step db0
          [(Some 1, 105, 300, Insert_role \<lparr>q_id = Omitted, q_user_id = Supplied (Some 1),
                                           q_role = Supplied (Some MODERATOR), q_created_at = Omitted\<rparr>),
           (Some 1, 106, 301, Update_role (\<lambda>r. True) \<lparr>q_id = Omitted, q_user_id = Omitted,
                                           q_role = Supplied (Some MODERATOR), q_created_at = Omitted\<rparr>),
           (Some 1, 107, 302, Delete_role (\<lambda>r. True))])
        (Some 1) (Some MODERATOR)"
proof -
  let ?reqs = "[(Some 1, 105, 300, Insert_role \<lparr>q_id = Omitted, q_user_id = Supplied (Some 1),
                                           q_role = Supplied (Some MODERATOR), q_created_at = Omitted\<rparr>),
           (Some 1, 106, 301, Update_role (\<lambda>r. True) \<lparr>q_id = Omitted, q_user_id = Omitted,
                                           q_role = Supplied (Some MODERATOR), q_created_at = Omitted\<rparr>),
           (Some 1, 107, 302, Delete_role (\<lambda>r. True))]"
  have pre: "4 \<notin> set (auth_users db0)" "Some 105 \<notin> set (map role_id (user_roles db0))"
    "\<not> has_role db0 (Some 1) (Some MODERATOR)"
    by (simp_all add: db0_def role_of_def has_role_def sql_eq_def)
  have ins: "insert_user_role db0 (Some 1) 105 300
        \<lparr>q_id = Omitted, q_user_id = Supplied (Some 1), q_role = Supplied (Some MODERATOR),
         q_created_at = Omitted\<rparr> = Inl Rls_violation"
    by (simp add: insert_user_role_def user_roles_new_def col_or_def user_roles_insert_check_def
        users_can_insert_their_own_role_on_signup_def sql_eq_def)
  note t = user_role_grants [of db0 4 105 300 "Some 1" _ ?reqs "Some 1"]
  from t db0_ok pre ins show ?thesis
    by (simp add: role_of_def)
qed

section \<open>Uniqueness of a role\<close>

text \<open>
  C8. When \<open>user_roles\<close> already has a row for a (user, role) pair, inserting another row
  with that pair fails with an integrity error, and the database is as it was. This is
  so for an insert that row-level security does not bind, as the one of the trigger. An
  insert by a client fails as well: with an integrity error when the policy admits the row
  (the pair is the caller with role USER), and by the policy before the constraint is
  reached otherwise.
\<close>

theorem duplicate_user_role:
  assumes r: "r \<in> set (user_roles d)" "role_user_id r = Some u" "role r = Some ro"
    and q: "q_user_id q = Supplied (Some u)" "col_or (q_role q) (Some USER) = Some ro"
  shows "(\<exists>e. insert_user_role_as_owner d gen now q = Inl e \<and> is_integrity_error e)
       \<and> (\<exists>e. insert_user_role d uid gen now q = Inl e
              \<and> (is_integrity_error e \<longleftrightarrow> uid = Some u \<and> ro = USER))
       \<and> commit d (insert_user_role_as_owner d gen now q) = d
       \<and> commit d (insert_user_role d uid gen now q) = d"
proof -
  let ?new = "user_roles_new gen now q"
  have new: "role_user_id ?new = Some u" "role ?new = Some ro"
    using q by (simp_all add: user_roles_new_def col_or_def)
  have "(role_user_id ?new, role ?new) \<in> set (map (\<lambda>r. (role_user_id r, role r)) (user_roles d))"
    using r new by (auto simp: image_iff intro!: bexI [of _ r])
  then have store: "store_user_role d ?new = Inl Not_null_violation
                  \<or> store_user_role d ?new = Inl Unique_violation"
    by (simp add: store_user_role_def)
  have check: "user_roles_insert_check d uid ?new \<longleftrightarrow> uid = Some u \<and> ro = USER"
    using new by (auto simp: user_roles_insert_check_def users_can_insert_their_own_role_on_signup_def
        sql_eq_def)
  from store check show ?thesis
    by (auto simp: insert_user_role_as_owner_def insert_user_role_def Let_def commit_def
        is_integrity_error_def)
qed

theorem duplicate_user_role_witness:
  "role_of 101 1 USER \<in> set (user_roles db0)
   \<and> insert_user_role_as_owner db0 105 300
        \<lparr>q_id = Omitted, q_user_id = Supplied (Some 1), q_role = Omitted, q_created_at = Omitted\<rparr>
       = Inl Unique_violation
   \<and> (\<exists>e. insert_user_role_as_owner db0 105 300
        \<lparr>q_id = Omitted, q_user_id = Supplied (Some 1), q_role = Omitted, q_created_at = Omitted\<rparr>
       = Inl e \<and> is_integrity_error e)
   \<and> commit db0 (insert_user_role db0 (Some 1) 105 300
        \<lparr>q_id = Omitted, q_user_id = Supplied (Some 1), q_role = Omitted, q_created_at = Omitted\<rparr>)
       = db0"
proof -
  let ?q = "\<lparr>q_id = Omitted, q_user_id = Supplied (Some 1), q_role = Omitted, q_created_at = Omitted\<rparr>"
  have r: "role_of 101 1 USER \<in> set (user_roles db0)" "role_user_id (role_of 101 1 USER) = Some 1"
    "role (role_of 101 1 USER) = Some USER"
    by (simp_all add: db0_def role_of_def)
  have q: "q_user_id ?q = Supplied (Some 1)" "col_or (q_role ?q) (Some USER) = Some USER"
    by (simp_all add: col_or_def)
  have e: "insert_user_role_as_owner db0 105 300 ?q = Inl Unique_violation"
    by (simp add: insert_user_role_as_owner_def store_user_role_def user_roles_new_def col_or_def
        user_roles_not_null_def db0_def role_of_def)
  from duplicate_user_role [OF r q, where gen = 105 and now = 300 and uid = "Some 1"] r(1) e show ?thesis
    by blast
qed

section \<open>Validation of a submission\<close>




section \<open>The counts of the dashboard\<close>

text \<open>
  C10. When every row fetched by the dashboard has one of the statuses pending, verified
  and rejected, the total count is the sum of the verified, pending and rejected counts.
\<close>

theorem fetchStats_total:
  assumes "\<forall>r \<in> set rows. row_status r \<in> {ascii ''pending'', ascii ''verified'', ascii ''rejected''}"
  shows "n_total (fetchStats before (Some rows)) =
           n_verified (fetchStats before (Some rows)) + n_pending (fetchStats before (Some rows))
           + n_rejected (fetchStats before (Some rows))"
proof -
  have "\<forall>r \<in> set rows. row_status r = ascii ''verified'' \<or> row_status r = ascii ''pending''
          \<or> row_status r = ascii ''rejected''"
    using assms by auto
  from count_three [OF this three_labels] show ?thesis
    by (simp add: fetchStats_def)
qed

theorem fetchStats_total_witness:
  "fetchStats \<lparr>n_total = 0, n_verified = 0, n_pending = 0, n_rejected = 0\<rparr>
        (Some [\<lparr>row_status = ascii ''verified''\<rparr>, \<lparr>row_status = ascii ''pending''\<rparr>,
               \<lparr>row_status = ascii ''pending''\<rparr>])
       = \<lparr>n_total = 3, n_verified = 1, n_pending = 2, n_rejected = 0\<rparr>
   \<and> n_total \<lparr>n_total = 3, n_verified = 1, n_pending = 2, n_rejected = 0\<rparr>
       = n_verified \<lparr>n_total = 3, n_verified = 1, n_pending = 2, n_rejected = 0\<rparr>
         + n_pending \<lparr>n_total = 3, n_verified = 1, n_pending = 2, n_rejected = 0\<rparr>
         + n_rejected \<lparr>n_total = 3, n_verified = 1, n_pending = 2, n_rejected = 0\<rparr>"
proof -
  let ?rows = "[\<lparr>row_status = ascii ''verified''\<rparr>, \<lparr>row_status = ascii ''pending''\<rparr>,
                \<lparr>row_status = ascii ''pending''\<rparr>]"
  let ?z = "\<lparr>n_total = 0, n_verified = 0, n_pending = 0, n_rejected = 0\<rparr>"
  have h: "\<forall>r \<in> set ?rows. row_status r \<in> {ascii ''pending'', ascii ''verified'', ascii ''rejected''}"
    by simp
  have e: "fetchStats ?z (Some ?rows) = \<lparr>n_total = 3, n_verified = 1, n_pending = 2, n_rejected = 0\<rparr>"
    by (simp add: fetchStats_def ascii_def)
  from fetchStats_total [OF h, of ?z] e show ?thesis
    by simp
qed

section \<open>The reviewer of a report\<close>

text \<open>
  C2. The first half holds (\<open>moderator_status_update\<close>: the status update of a caller
  holding MODERATOR succeeds whatever the current status). The second half does not: the
  table has the columns \<open>verified_by\<close> and \<open>verified_at\<close>, but no trigger or default
  fills them, and \<open>updateStatus\<close> sends the status alone. Here the moderator 2
  verifies the pending report 10: the row becomes verified, and its reviewer and review
  time are still NULL.
\<close>

theorem updateStatus_leaves_reviewer_unset:
  "has_role db0 (Some 2) (Some MODERATOR)
   \<and> updateStatus db0 (Some 2) 200 10 verified
       = (Report_updated verified,
          db0\<lparr>reports := [(report_of 10 1 verified)\<lparr>updated_at := Some 200\<rparr>,
                           report_of 11 3 rejected, report_of 12 3 verified]\<rparr>)
   \<and> verified_by ((report_of 10 1 verified)\<lparr>updated_at := Some 200\<rparr>) = None
   \<and> verified_at ((report_of 10 1 verified)\<lparr>updated_at := Some 200\<rparr>) = None"
  by (simp add: updateStatus_def eval_defs)

end
